theory Spec2Isabelle
  imports Complex_Main "HOL-Library.Sublist"
begin

section \<open>JavaScript values\<close>

text \<open>
  The services are JavaScript. A property of an object is absent (\<open>undefined\<close>), \<open>null\<close>
  or holds a value; a destructuring default (\<open>title = ''\<close>) replaces \<open>undefined\<close> only.
  Reading a property of \<open>null\<close> or \<open>undefined\<close> throws a \<open>TypeError\<close>; an error thrown by an
  external package is \<open>Thrown\<close>. Both carry their message.
\<close>

datatype 'a js = Undefined | Null | Val 'a

datatype js_error = TypeError string | Thrown string

fun message :: "js_error \<Rightarrow> string" where
  "message (TypeError m) = m"
| "message (Thrown m) = m"

definition default_to :: "'a \<Rightarrow> 'a js \<Rightarrow> 'a js" where
  "default_to d x = (case x of Undefined \<Rightarrow> Val d | Null \<Rightarrow> Null | Val v \<Rightarrow> Val v)"

text \<open>\<open>o.p\<close> for an object reference \<open>o\<close> that may be \<open>null\<close>; \<open>p\<close> names the property.\<close>

definition property_of :: "'a js \<Rightarrow> string \<Rightarrow> js_error + 'a" where
  "property_of obj p =
     (case obj of
        Val v \<Rightarrow> Inr v
      | Null \<Rightarrow> Inl (TypeError (''Cannot read properties of null (reading '' @ p @ '')''))
      | Undefined \<Rightarrow> Inl (TypeError (''Cannot read properties of undefined (reading '' @ p @ '')'')))"

text \<open>\<open>x || ''\<close> on a string property: \<open>undefined\<close>, \<open>null\<close> and \<open>''\<close> are falsy.\<close>

definition or_empty :: "string js \<Rightarrow> string" where
  "or_empty x = (case x of Val s \<Rightarrow> s | _ \<Rightarrow> [])"

text \<open>\<open>xs || []\<close> on an array property.\<close>

definition or_nil :: "'a list js \<Rightarrow> 'a list" where
  "or_nil x = (case x of Val xs \<Rightarrow> xs | _ \<Rightarrow> [])"

text \<open>\<open>a || b\<close> on two string properties (\<open>job._id || job.id\<close>).\<close>

definition js_or :: "string js \<Rightarrow> string js \<Rightarrow> string js" where
  "js_or a b = (case a of Val s \<Rightarrow> (if s = [] then b else Val s) | _ \<Rightarrow> b)"

text \<open>
  Numbers are modelled as exact reals: the rounding of IEEE doubles is outside this model.
  The one division of the engine (\<open>likes / followers\<close>) is modelled with JavaScript's results
  for a zero divisor, which are not finite numbers.
\<close>

datatype jsnum = Finite real | PosInfinity | NegInfinity | NaN

definition js_div :: "real \<Rightarrow> real \<Rightarrow> jsnum" where
  "js_div a b =
     (if b \<noteq> 0 then Finite (a / b)
      else if a > 0 then PosInfinity
      else if a < 0 then NegInfinity
      else NaN)"

fun js_gt :: "jsnum \<Rightarrow> real \<Rightarrow> bool" where
  "js_gt (Finite x) y = (x > y)"
| "js_gt PosInfinity y = True"
| "js_gt NegInfinity y = False"
| "js_gt NaN y = False"

section \<open>Strings and arrays\<close>

text \<open>
  Strings are byte strings; \<open>toLowerCase\<close> is modelled on the ASCII letters.
\<close>

definition lower_char :: "char \<Rightarrow> char" where
  "lower_char c =
     (case map_of (zip ''ABCDEFGHIJKLMNOPQRSTUVWXYZ'' ''abcdefghijklmnopqrstuvwxyz'') c of
        Some d \<Rightarrow> d
      | None \<Rightarrow> c)"

definition toLowerCase :: "string \<Rightarrow> string" where
  "toLowerCase s = map lower_char s"

text \<open>\<open>text.includes(k)\<close>: \<open>k\<close> occurs in \<open>text\<close> as a contiguous substring.\<close>

fun js_includes :: "string \<Rightarrow> string \<Rightarrow> bool" where
  "js_includes [] k = (k = [])"
| "js_includes (c # cs) k = (prefix k (c # cs) \<or> js_includes cs k)"

text \<open>\<open>xs.join(sep)\<close> on an array of strings.\<close>

fun join :: "string \<Rightarrow> string list \<Rightarrow> string" where
  "join sep [] = []"
| "join sep [x] = x"
| "join sep (x # y # ys) = x @ sep @ join sep (y # ys)"

text \<open>
  \<open>[...new Set(xs)]\<close>: a \<open>Set\<close> keeps insertion order and ignores an element it already
  holds, so the first occurrence of each element survives.
\<close>

fun uniq :: "'a list \<Rightarrow> 'a list" where
  "uniq [] = []"
| "uniq (x # xs) = x # uniq (filter (\<lambda>y. y \<noteq> x) xs)"

text \<open>\<open>xs.some(kw => ws.includes(kw))\<close>.\<close>

definition some_in :: "string list \<Rightarrow> string list \<Rightarrow> bool" where
  "some_in xs ws = list_ex (\<lambda>kw. kw \<in> set ws) xs"

section \<open>Lexicon and pattern matching\<close>

text \<open>
  Both services scan their vocabulary with the same loop:
  \<^verbatim>\<open>
    const foundKeywords = [];
    this.suspiciousKeywords.forEach(keyword => {
      if (fullText.includes(keyword.toLowerCase())) { foundKeywords.push(keyword); }
    });
    analysis.flaggedKeywords = [...new Set(foundKeywords)];
  \<close>
\<close>

definition scanKeywords :: "string list \<Rightarrow> string \<Rightarrow> string list" where
  "scanKeywords vocabulary fullText =
     uniq (filter (\<lambda>keyword. js_includes fullText (toLowerCase keyword)) vocabulary)"

text \<open>
  A regular expression with the global flag is represented by what \<open>fullText.match(pattern)\<close>
  returns for it: \<open>null\<close> (\<open>None\<close>) when nothing matches, the array of matched substrings
  otherwise. The regular-expression engine belongs to the language runtime.
\<close>

type_synonym regex = "string \<Rightarrow> string list option"

definition scanPatterns :: "regex list \<Rightarrow> string \<Rightarrow> string list" where
  "scanPatterns patterns fullText =
     uniq (concat (map (\<lambda>pattern. case pattern fullText of None \<Rightarrow> [] | Some matches \<Rightarrow> matches)
                       patterns))"

text \<open>The vocabulary of \<open>ScamDetectionService\<close> (job postings).\<close>

definition suspiciousKeywords :: "string list" where
  "suspiciousKeywords =
     [''money'', ''payment'', ''fee'', ''deposit'', ''investment'', ''cash'', ''wire transfer'',
      ''paypal'', ''bitcoin'', ''cryptocurrency'', ''bank transfer'', ''credit card'',
      ''urgent payment'', ''immediate payment'', ''sign up fee'', ''training fee'',
      ''work from home'', ''remote work'', ''earn money from home'', ''home based'',
      ''make money online'', ''easy money'', ''quick cash'', ''no experience needed'',
      ''work online'', ''stay at home'', ''extra income'', ''side hustle'',
      ''international'', ''abroad'', ''overseas'', ''travel expenses'', ''visa processing'',
      ''flight tickets'', ''passport'', ''background check fee'', ''documentation fee'',
      ''screening fee'', ''interview fee'', ''processing fee'', ''handling fee'',
      ''limited time'', ''act now'', ''urgent'', ''immediate'', ''today only'', ''last chance'',
      ''exclusive opportunity'', ''once in lifetime'', ''must apply now'', ''deadline'',
      ''hurry'', ''rush'', ''expedited'', ''priority'', ''first come first served'',
      ''various duties'', ''miscellaneous tasks'', ''data entry'', ''customer service'',
      ''representative'', ''coordinator'', ''assistant'', ''agent'', ''associate'',
      ''clerk'', ''operator'', ''specialist'', ''manager'', ''director'',
      ''guaranteed'', ''risk free'', ''no risk'', ''huge profits'', ''guaranteed income'',
      ''no loss'', ''profit guarantee'', ''money back'', ''satisfaction guaranteed'',
      ''free trial'', ''no commitment'', ''cancel anytime'', ''no strings attached'']"

text \<open>The vocabulary of \<open>SocialMediaMonitoringService\<close> (social posts).\<close>

definition socialKeywords :: "string list" where
  "socialKeywords =
     [''work from home'', ''earn money online'', ''make money from home'', ''easy money'',
      ''quick cash'', ''no experience needed'', ''urgent hiring'', ''international job'',
      ''visa processing'', ''flight tickets paid'', ''work abroad'', ''remote job'',
      ''investment opportunity'', ''guaranteed returns'', ''high profit'', ''no risk'',
      ''get rich quick'', ''money making'', ''passive income'', ''side hustle'',
      ''click here'', ''limited time'', ''act now'', ''urgent'', ''winner'', ''congratulations'',
      ''free money'', ''prize'', ''lottery'', ''inheritance'', ''claim now'',
      ''pyramid scheme'', ''multi-level marketing'', ''referral program'', ''affiliate'',
      ''binary options'', ''crypto investment'', ''bitcoin mining'', ''forex trading'']"

section \<open>External packages\<close>

text \<open>
  The \<open>sentiment\<close> package: \<open>analyze(text)\<close> returns a score, the score divided by the
  number of tokens, and the scored tokens. It is a parameter of the model.
\<close>

record sentiment_result =
  score :: int
  comparative :: real
  positive_words :: "string list"
  negative_words :: "string list"

text \<open>
  The \<open>natural\<close> package's \<open>BayesClassifier\<close>. A training example is
  \<open>{text, label}\<close>; an entry of a classification list is \<open>{label, value}\<close>. What
  \<open>getClassifications\<close> returns is not checked by the package's callers: the model admits
  \<open>null\<close>/\<open>undefined\<close> (\<open>NoList\<close>) and an array whose elements may be \<open>null\<close> or
  \<open>undefined\<close>. The \<open>value\<close> of an entry is a number.
\<close>

record training_example =
  ex_text :: string
  ex_label :: string

record classification =
  label :: string
  cvalue :: real

datatype classifications = NoList | Array "classification js list"

text \<open>
  The classifier object: the documents added so far (\<open>docs\<close>) and the documents the
  statistics of the last \<open>train()\<close> were computed from (\<open>trained\<close>).
\<close>

record classifier =
  docs :: "training_example list"
  trained :: "training_example list"

text \<open>
  Modelled from the spec: \<open>BayesClassifier.addDocument\<close> and \<open>BayesClassifier.train\<close>,
  which belong to the \<open>natural\<close> package and not to the repository. Section 4.5: the
  training examples accumulate in an append-only corpus, and \<open>train\<close> rebuilds the
  statistics over the corpus and installs them as the active model.
\<close>

definition addDocument :: "classifier \<Rightarrow> string \<Rightarrow> string \<Rightarrow> classifier" where
  "addDocument c txt lbl = c\<lparr>docs := docs c @ [\<lparr>ex_text = txt, ex_label = lbl\<rparr>]\<rparr>"

definition train :: "classifier \<Rightarrow> classifier" where
  "train c = c\<lparr>trained := docs c\<rparr>"

text \<open>
  What the services call in packages and in the language runtime: the sentiment analysis,
  the classification by a classifier object, and the regular expressions of each service.
\<close>

record runtime =
  sentiment_analyze :: "string \<Rightarrow> sentiment_result"
  getClassifications :: "classifier \<Rightarrow> string \<Rightarrow> js_error + classifications"
  jobPatterns :: "regex list"
  socialPatterns :: "regex list"

section \<open>ScamDetectionService\<close>

text \<open>
  The state of the service object: the documents of \<open>this.tfidf\<close> and
  \<open>this.bayesClassifier\<close> (\<open>null\<close> before \<open>initializeBayesClassifier\<close>). \<open>this.tfidf\<close>
  is a \<open>TfIdf\<close> of the \<open>natural\<close> package, which keeps the documents added to it.
\<close>

record service =
  tfidf :: "string list"
  bayesClassifier :: "classifier option"

definition trainingData :: "training_example list" where
  "trainingData =
     [\<lparr>ex_text = ''Work from home making $5000 per week! No experience needed. Sign up fee required.'',
       ex_label = ''scam''\<rparr>,
      \<lparr>ex_text = ''Earn money online! Send $200 to get started. Easy payments. Urgent!'',
       ex_label = ''scam''\<rparr>,
      \<lparr>ex_text = ''International company hiring! Pay processing fee of $150 for visa. Act now!'',
       ex_label = ''scam''\<rparr>,
      \<lparr>ex_text = ''Make money from home! No skills required! Wire transfer payment only!'',
       ex_label = ''scam''\<rparr>,
      \<lparr>ex_text = ''Earn big money fast! Investment required. Risk free guarantee!'',
       ex_label = ''scam''\<rparr>,
      \<lparr>ex_text = ''Software Engineer position. 3+ years experience required. Competitive salary.'',
       ex_label = ''legitimate''\<rparr>,
      \<lparr>ex_text = ''Marketing coordinator needed. Bachelor's degree required. Benefits included.'',
       ex_label = ''legitimate''\<rparr>,
      \<lparr>ex_text = ''Join our team of professionals. Great work environment. Apply today.'',
       ex_label = ''legitimate''\<rparr>,
      \<lparr>ex_text = ''Senior developer role. Experience with React and Node.js. Remote work available.'',
       ex_label = ''legitimate''\<rparr>,
      \<lparr>ex_text = ''Customer service representative. Excellent communication skills needed. Full-time.'',
       ex_label = ''legitimate''\<rparr>]"

text \<open>
  \<open>initializeBayesClassifier\<close>: a new classifier, the ten seed examples added in order,
  then trained.
\<close>

definition initializeBayesClassifier :: "classifier" where
  "initializeBayesClassifier =
     train (foldl (\<lambda>c item. addDocument c (ex_text item) (ex_label item))
                  \<lparr>docs = [], trained = []\<rparr> trainingData)"

definition new_service :: "service" where
  "new_service = \<lparr>tfidf = [], bayesClassifier = Some initializeBayesClassifier\<rparr>"

subsection \<open>The job posting and its normalized text\<close>

text \<open>
  The fields \<open>analyzeJobPosting\<close> and \<open>batchAnalyze\<close> read. \<open>job_uid\<close> is \<open>_id\<close> and
  \<open>job_id\<close> is \<open>id\<close>. Text fields hold strings and the two lists hold strings.
\<close>

record company_obj =
  name :: "string js"

record contact_obj =
  email :: "string js"
  phone :: "string js"
  website :: "string js"

record jobData =
  job_uid :: "string js"
  job_id :: "string js"
  title :: "string js"
  description :: "string js"
  company :: "company_obj js"
  requirements :: "string list js"
  responsibilities :: "string list js"
  contactInfo :: "contact_obj js"

text \<open>
  \<^verbatim>\<open>
    const { title = '', description = '', company = {}, requirements = [],
            responsibilities = [], salary = {}, contactInfo = {} } = jobData;
    const fullText = [ title, description, company.name || '',
      ...(requirements || []), ...(responsibilities || []),
      contactInfo.email || '', contactInfo.phone || '', contactInfo.website || ''
    ].join(' ').toLowerCase();
  \<close>
  The array literal is evaluated left to right, so \<open>company.name\<close> is read before
  \<open>contactInfo.email\<close>. \<open>join\<close> writes a \<open>null\<close> element as the empty string.
\<close>

definition fullText :: "jobData \<Rightarrow> js_error + string" where
  "fullText jobData =
     (let title = default_to [] (title jobData);
          description = default_to [] (description jobData);
          company = default_to \<lparr>name = Undefined\<rparr> (company jobData);
          requirements = default_to [] (requirements jobData);
          responsibilities = default_to [] (responsibilities jobData);
          contactInfo = default_to \<lparr>email = Undefined, phone = Undefined, website = Undefined\<rparr>
                          (contactInfo jobData)
      in case property_of company ''name'' of
           Inl e \<Rightarrow> Inl e
         | Inr co \<Rightarrow>
             (case property_of contactInfo ''email'' of
                Inl e \<Rightarrow> Inl e
              | Inr ci \<Rightarrow>
                  Inr (toLowerCase (join '' ''
                    ([or_empty title, or_empty description, or_empty (name co)]
                     @ or_nil requirements @ or_nil responsibilities
                     @ [or_empty (email ci), or_empty (phone ci), or_empty (website ci)])))))"

subsection \<open>The analysis of a job posting\<close>

record analysis_base =
  confidence :: real
  flaggedKeywords :: "string list"
  flaggedPatterns :: "string list"
  sentiment :: sentiment_result

record job_analysis = analysis_base +
  isScam :: bool
  scamTypes :: "string list"
  riskFactors :: "string list"
  recommendations :: "string list"

text \<open>The red flags and the scam types, pushed in the order of the source.\<close>

definition payment_required :: "string list \<Rightarrow> bool" where
  "payment_required fk = some_in fk [''fee'', ''payment'', ''deposit'', ''investment'']"

definition work_from_home_payment :: "string list \<Rightarrow> bool" where
  "work_from_home_payment fk =
     (''work from home'' \<in> set fk \<and> some_in fk [''fee'', ''payment'', ''deposit''])"

definition international_fee :: "string list \<Rightarrow> bool" where
  "international_fee fk =
     (some_in fk [''international'', ''abroad'', ''overseas'', ''visa'', ''flight'']
      \<and> some_in fk [''fee'', ''payment'', ''deposit''])"

definition high_pressure :: "string list \<Rightarrow> bool" where
  "high_pressure fk = some_in fk [''urgent'', ''immediate'', ''act now'', ''limited time'', ''hurry'']"

definition vague_description :: "string list \<Rightarrow> bool" where
  "vague_description fk =
     (some_in fk [''various duties'', ''miscellaneous tasks'', ''data entry'', ''customer service'']
      \<and> \<not> some_in fk [''engineer'', ''developer'', ''analyst'', ''manager'', ''specialist''])"

definition redFlags :: "string list \<Rightarrow> string list" where
  "redFlags fk =
     (if payment_required fk then [''payment_required''] else [])
     @ (if work_from_home_payment fk then [''work_from_home_payment''] else [])
     @ (if international_fee fk then [''international_fee''] else [])
     @ (if high_pressure fk then [''high_pressure''] else [])
     @ (if vague_description fk then [''vague_description''] else [])"

definition job_scamTypes :: "string list \<Rightarrow> string list" where
  "job_scamTypes fk =
     (if payment_required fk then [''advance_fee_fraud''] else [])
     @ (if work_from_home_payment fk then [''work_from_home_scam''] else [])
     @ (if international_fee fk then [''recruitment_fraud''] else [])"

text \<open>
  \<^verbatim>\<open>
    let bayesResult = null;
    try { bayesResult = this.bayesClassifier.getClassifications(fullText); }
    catch (error) { console.error('Bayes classifier error:', error); }
  \<close>
  A throw leaves \<open>bayesResult\<close> at \<open>null\<close>; so does a \<open>null\<close> classifier object, whose
  method call throws inside the \<open>try\<close>.
\<close>

definition bayesResult :: "runtime \<Rightarrow> service \<Rightarrow> string \<Rightarrow> classifications" where
  "bayesResult rt svc t =
     (case bayesClassifier svc of
        None \<Rightarrow> NoList
      | Some c \<Rightarrow> (case getClassifications rt c t of Inl e \<Rightarrow> NoList | Inr r \<Rightarrow> r))"

text \<open>
  \<open>bayesResult.find(c => c.label === 'scam')\<close>: the callback reads \<open>c.label\<close> of each
  element in turn, which throws on an element that is \<open>null\<close> or \<open>undefined\<close>.
\<close>

fun find_scam :: "classification js list \<Rightarrow> js_error + classification option" where
  "find_scam [] = Inr None"
| "find_scam (x # xs) =
     (case property_of x ''label'' of
        Inl e \<Rightarrow> Inl e
      | Inr c \<Rightarrow> if label c = ''scam'' then Inr (Some c) else find_scam xs)"

text \<open>
  \<^verbatim>\<open>
    if (bayesResult && bayesResult.length > 0) {
      const scamClassification = bayesResult.find(c => c.label === 'scam');
      const scamProbability = scamClassification ? scamClassification.value : 0;
      riskScore = (riskScore + scamProbability) / 2;
    }
  \<close>
\<close>

definition adjust_by_bayes :: "real \<Rightarrow> classifications \<Rightarrow> js_error + real" where
  "adjust_by_bayes riskScore r =
     (case r of
        NoList \<Rightarrow> Inr riskScore
      | Array cs \<Rightarrow>
          if length cs > 0 then
            (case find_scam cs of
               Inl e \<Rightarrow> Inl e
             | Inr scamClassification \<Rightarrow>
                 (let scamProbability =
                        (case scamClassification of Some c \<Rightarrow> cvalue c | None \<Rightarrow> 0)
                  in Inr ((riskScore + scamProbability) / 2)))
          else Inr riskScore)"

definition job_recommendations :: "bool \<Rightarrow> string list \<Rightarrow> string list \<Rightarrow> string list" where
  "job_recommendations is_scam fk flags =
     (if is_scam then
        [''Mark as suspicious and investigate further'',
         ''Consider removing listing if confidence is high'',
         ''Notify moderators for review'']
      else
        [''Appears legitimate based on current analysis'',
         ''Continue monitoring for user reports''])
     @ (if length fk > 0 then [''Review flagged keywords: '' @ join '', '' (take 5 fk)] else [])
     @ (if length flags > 0 then [''Red flags detected: '' @ join '', '' flags] else [])"

text \<open>
  The score before the classifier is consulted:
  \<^verbatim>\<open>
    let keywordRiskScore = 0;
    if (analysis.flaggedKeywords.length > 0) {
      keywordRiskScore = Math.min(analysis.flaggedKeywords.length / 10, 1);
    }
    ...
    let riskScore = keywordRiskScore;
    const redFlagWeight = redFlags.length * 0.15;
    riskScore += redFlagWeight;
    if (sentimentScore.comparative > 0.5) { riskScore += 0.1; }
  \<close>
\<close>

definition rule_riskScore :: "string list \<Rightarrow> string list \<Rightarrow> sentiment_result \<Rightarrow> real" where
  "rule_riskScore fk flags sentimentScore =
     (let keywordRiskScore = (if length fk > 0 then min (real (length fk) / 10) 1 else 0);
          riskScore = keywordRiskScore;
          redFlagWeight = real (length flags) * 0.15;
          riskScore = riskScore + redFlagWeight
      in if comparative sentimentScore > 0.5 then riskScore + 0.1 else riskScore)"

text \<open>
  \<open>analyzeJobPosting\<close>. It returns its result, or the error it throws, and the state of
  the service afterwards: \<open>this.tfidf.addDocument(fullText)\<close> adds the text to the
  documents of \<open>this.tfidf\<close>. The TF-IDF scores it then computes are a local value that
  the result does not hold.
\<close>

definition analyzeJobPosting ::
    "runtime \<Rightarrow> service \<Rightarrow> jobData \<Rightarrow> (js_error + job_analysis) \<times> service" where
  "analyzeJobPosting rt svc jobData =
     (case fullText jobData of
        Inl e \<Rightarrow> (Inl e, svc)
      | Inr t \<Rightarrow>
          (let fk = scanKeywords suspiciousKeywords t;
               fp = scanPatterns (jobPatterns rt) t;
               flags = redFlags fk;
               sentimentScore = sentiment_analyze rt t;
               svc' = svc\<lparr>tfidf := tfidf svc @ [t]\<rparr>;
               r = bayesResult rt svc' t;
               riskScore = rule_riskScore fk flags sentimentScore
           in case adjust_by_bayes riskScore r of
                Inl e \<Rightarrow> (Inl e, svc')
              | Inr riskScore \<Rightarrow>
                  (let riskScore = min (max riskScore 0) 1
                   in (Inr \<lparr>confidence = riskScore,
                            flaggedKeywords = fk,
                            flaggedPatterns = fp,
                            sentiment = sentimentScore,
                            isScam = (riskScore > 0.5),
                            scamTypes = job_scamTypes fk,
                            riskFactors = flags,
                            recommendations = job_recommendations (riskScore > 0.5) fk flags\<rparr>,
                       svc'))))"

subsection \<open>Batch analysis and its summary\<close>

text \<open>
  An entry of the batch result holds the analysis, or the object the \<open>catch\<close> block builds:
  \<open>{ isScam: false, confidence: 0, error: error.message }\<close>.
\<close>

record error_analysis =
  err_isScam :: bool
  err_confidence :: real
  error_message :: string

datatype batch_analysis = Analysed job_analysis | Degraded error_analysis

record batch_result =
  jobId :: "string js"
  analysis :: batch_analysis

fun analysis_isScam :: "batch_analysis \<Rightarrow> bool" where
  "analysis_isScam (Analysed a) = isScam a"
| "analysis_isScam (Degraded d) = err_isScam d"

fun analysis_confidence :: "batch_analysis \<Rightarrow> real" where
  "analysis_confidence (Analysed a) = confidence a"
| "analysis_confidence (Degraded d) = err_confidence d"

fun is_degraded :: "batch_analysis \<Rightarrow> bool" where
  "is_degraded (Analysed a) = False"
| "is_degraded (Degraded d) = True"

text \<open>The body of the loop of \<open>batchAnalyze\<close>: the \<open>try\<close> and its \<open>catch\<close>.\<close>

definition batch_entry :: "jobData \<Rightarrow> js_error + job_analysis \<Rightarrow> batch_result" where
  "batch_entry job outcome =
     \<lparr>jobId = js_or (job_uid job) (job_id job),
      analysis =
        (case outcome of
           Inr a \<Rightarrow> Analysed a
         | Inl e \<Rightarrow> Degraded \<lparr>err_isScam = False, err_confidence = 0,
                               error_message = message e\<rparr>)\<rparr>"

text \<open>
  \<open>batchAnalyze\<close>: the postings are analysed one after the other on the same service
  object. The postings are objects, as the controller reads them from the database.
\<close>

fun batchAnalyze :: "runtime \<Rightarrow> service \<Rightarrow> jobData list \<Rightarrow> batch_result list \<times> service" where
  "batchAnalyze rt svc [] = ([], svc)"
| "batchAnalyze rt svc (job # jobPostings) =
     (let (outcome, svc') = analyzeJobPosting rt svc job;
          (results, svc'') = batchAnalyze rt svc' jobPostings
      in (batch_entry job outcome # results, svc''))"

text \<open>
  The summary the controller's \<open>batchAnalyze\<close> sends:
  \<^verbatim>\<open>
    summary: { total: results.length,
               scamsDetected: results.filter(r => r.analysis.isScam).length,
               legitimate: results.filter(r => !r.analysis.isScam).length }
  \<close>
\<close>

record summary =
  total :: nat
  scamsDetected :: nat
  legitimate :: nat

definition batch_summary :: "batch_result list \<Rightarrow> summary" where
  "batch_summary results =
     \<lparr>total = length results,
      scamsDetected = length (filter (\<lambda>r. analysis_isScam (analysis r)) results),
      legitimate = length (filter (\<lambda>r. \<not> analysis_isScam (analysis r)) results)\<rparr>"

subsection \<open>Updating the model\<close>

text \<open>
  \<^verbatim>\<open>
    trainingData.forEach(item => { this.bayesClassifier.addDocument(item.text, item.label); });
    this.bayesClassifier.train();
  \<close>
  The loop works on the classifier object of the service. Reading \<open>item.text\<close> of an item that
  is \<open>null\<close> or \<open>undefined\<close> throws, which ends the loop and \<open>updateModel\<close> with the
  classifier as the items before have left it. The fields of an item that is an object are
  strings.
\<close>

fun addDocuments :: "classifier \<Rightarrow> training_example js list \<Rightarrow> js_error option \<times> classifier" where
  "addDocuments c [] = (None, c)"
| "addDocuments c (item # items) =
     (case property_of item ''text'' of
        Inl e \<Rightarrow> (Some e, c)
      | Inr ex \<Rightarrow> addDocuments (addDocument c (ex_text ex) (ex_label ex)) items)"

definition updateModel :: "service \<Rightarrow> training_example js list \<Rightarrow> (js_error + unit) \<times> service" where
  "updateModel svc items =
     (let c0 = (case bayesClassifier svc of None \<Rightarrow> initializeBayesClassifier | Some c \<Rightarrow> c);
          (err, c1) = addDocuments c0 items
      in case err of
           Some e \<Rightarrow> (Inl e, svc\<lparr>bayesClassifier := Some c1\<rparr>)
         | None \<Rightarrow> (Inr (), svc\<lparr>bayesClassifier := Some (train c1)\<rparr>))"

section \<open>SocialMediaMonitoringService\<close>

text \<open>
  The fields of a post that \<open>analyzeSocialMediaContent\<close> reads: its text and its engagement
  counters, which are numbers.
\<close>

record engagement_obj =
  followers :: "real js"
  likes :: "real js"

record content =
  post_text :: "string js"
  engagement :: "engagement_obj js"

datatype risk_level = Low | Medium | High | Critical

record social_analysis = analysis_base +
  isSuspicious :: bool
  detectedScamTypes :: "string list"
  riskLevel :: risk_level

text \<open>
  \<^verbatim>\<open>
    if (engagement && engagement.followers && engagement.likes) {
      const engagementRatio = engagement.likes / engagement.followers;
      if (engagementRatio > 0.5) { riskScore += 0.2; }
    }
  \<close>
  \<open>0\<close>, \<open>null\<close> and \<open>undefined\<close> are falsy. The result is the ratio when the branch is
  entered, and \<open>None\<close> when it is not.
\<close>

definition engagementRatio :: "engagement_obj js \<Rightarrow> jsnum option" where
  "engagementRatio eng =
     (case eng of
        Val e \<Rightarrow>
          (case followers e of
             Val f \<Rightarrow>
               if f \<noteq> 0 then
                 (case likes e of
                    Val l \<Rightarrow> if l \<noteq> 0 then Some (js_div l f) else None
                  | _ \<Rightarrow> None)
               else None
           | _ \<Rightarrow> None)
      | _ \<Rightarrow> None)"

text \<open>The chain of comparisons that sets \<open>analysis.riskLevel\<close>.\<close>

definition determine_riskLevel :: "real \<Rightarrow> risk_level" where
  "determine_riskLevel riskScore =
     (if riskScore < 0.3 then Low
      else if riskScore < 0.6 then Medium
      else if riskScore < 0.8 then High
      else Critical)"

definition social_scamTypes :: "string list \<Rightarrow> string list" where
  "social_scamTypes fk =
     (if some_in fk [''work from home'', ''earn money online'', ''make money from home'']
      then [''work_from_home_scam''] else [])
     @ (if some_in fk [''investment'', ''guaranteed returns'', ''high profit'', ''no risk'']
        then [''investment_fraud''] else [])
     @ (if some_in fk [''pyramid scheme'', ''multi-level marketing'', ''referral program'']
        then [''pyramid_scheme''] else [])"

text \<open>
  The risk score of a post, from "Calculate risk score" to "Cap risk score at 1".
\<close>

definition social_riskScore ::
    "string list \<Rightarrow> string list \<Rightarrow> engagement_obj js \<Rightarrow> sentiment_result \<Rightarrow> real" where
  "social_riskScore fk fp eng sentimentScore =
     (let riskScore = 0;
          riskScore = (if length fk > 0 then riskScore + min (real (length fk) * 0.1) 0.5
                       else riskScore);
          riskScore = (if length fp > 0 then riskScore + min (real (length fp) * 0.15) 0.5
                       else riskScore);
          riskScore = (case engagementRatio eng of
                         Some ratio \<Rightarrow> if js_gt ratio 0.5 then riskScore + 0.2 else riskScore
                       | None \<Rightarrow> riskScore);
          riskScore = (if comparative sentimentScore > 0.8 then riskScore + 0.15
                       else riskScore)
      in min riskScore 1)"

text \<open>
  \<open>analyzeSocialMediaContent\<close>. \<open>text.toLowerCase()\<close> throws on a \<open>null\<close> text. The
  \<open>entities\<close> of the result are empty lists in every result and are left out.
\<close>

definition analyzeSocialMediaContent :: "runtime \<Rightarrow> content \<Rightarrow> js_error + social_analysis" where
  "analyzeSocialMediaContent rt content =
     (let text = default_to [] (post_text content);
          engagement = default_to \<lparr>followers = Undefined, likes = Undefined\<rparr> (engagement content)
      in case property_of text ''toLowerCase'' of
           Inl e \<Rightarrow> Inl e
         | Inr s \<Rightarrow>
             (let t = toLowerCase s;
                  fk = scanKeywords socialKeywords t;
                  fp = scanPatterns (socialPatterns rt) t;
                  sentimentScore = sentiment_analyze rt t;
                  riskScore = social_riskScore fk fp engagement sentimentScore
              in Inr \<lparr>confidence = riskScore,
                      flaggedKeywords = fk,
                      flaggedPatterns = fp,
                      sentiment = sentimentScore,
                      isSuspicious = (riskScore > 0.4),
                      detectedScamTypes = social_scamTypes fk,
                      riskLevel = determine_riskLevel riskScore\<rparr>))"

section \<open>The fusion rules as the specification words them\<close>

text \<open>Clamping to the interval from 0 to 1.\<close>

definition clamp01 :: "real \<Rightarrow> real" where
  "clamp01 x = (if x < 0 then 0 else if 1 < x then 1 else x)"

text \<open>The number of red flags that are true.\<close>

definition true_red_flags :: "string list \<Rightarrow> nat" where
  "true_red_flags fk =
     length (filter (\<lambda>b. b)
       [payment_required fk, work_from_home_payment fk, international_fee fk,
        high_pressure fk, vague_description fk])"

text \<open>The probability of the label \<open>scam\<close> in a classification list, 0 if it is absent.\<close>

definition scam_probability :: "classification list \<Rightarrow> real" where
  "scam_probability cs =
     (case List.find (\<lambda>c. label c = ''scam'') cs of Some c \<Rightarrow> cvalue c | None \<Rightarrow> 0)"

text \<open>
  Job-posting fusion, steps 1 and 3 to 6: the number of flagged keywords, the number of true
  red flags, the comparative sentiment and the classification list (empty when the
  classifier gave no signal).
\<close>

definition job_fusion :: "nat \<Rightarrow> nat \<Rightarrow> real \<Rightarrow> classification list \<Rightarrow> real" where
  "job_fusion keywords flags cmpv cs =
     (let r = min (real keywords / 10) 1 + 0.15 * real flags;
          r = r + (if cmpv > 0.5 then 0.1 else 0);
          r = (if cs \<noteq> [] then (r + scam_probability cs) / 2 else r)
      in clamp01 r)"

text \<open>
  Social-post fusion, steps 1 to 4. The engagement bonus is a parameter; its condition is
  \<open>bonus_when_both_nonzero\<close> below.
\<close>

definition social_fusion :: "nat \<Rightarrow> nat \<Rightarrow> bool \<Rightarrow> real \<Rightarrow> real" where
  "social_fusion keywords patterns bonus cmpv =
     clamp01 (min (real keywords * 0.1) 0.5 + min (real patterns * 0.15) 0.5
              + (if bonus then 0.2 else 0)
              + (if cmpv > 0.8 then 0.15 else 0))"

text \<open>
  The engagement metrics include both followers and likes, and likes/followers > 0.5. A
  follower count of 0 has no ratio, so the signal does not apply there; with 0 likes the
  ratio is 0.
\<close>

definition bonus_when_both_nonzero :: "engagement_obj js \<Rightarrow> bool" where
  "bonus_when_both_nonzero eng =
     (case eng of
        Val e \<Rightarrow>
          (case (followers e, likes e) of
             (Val f, Val l) \<Rightarrow> f \<noteq> 0 \<and> l \<noteq> 0 \<and> l / f > 0.5
           | _ \<Rightarrow> False)
      | _ \<Rightarrow> False)"

text \<open>A counter that is absent, \<open>null\<close> or 0.\<close>

definition absent_or_zero :: "real js \<Rightarrow> bool" where
  "absent_or_zero x = (x = Undefined \<or> x = Null \<or> x = Val 0)"

section \<open>Example inputs\<close>

text \<open>
  A runtime for the examples: a sentiment analysis that finds every text neutral, a
  classifier that returns an empty list, and two patterns, each for one literal word.
\<close>

definition neutral :: sentiment_result where
  "neutral = \<lparr>score = 0, comparative = 0, positive_words = [], negative_words = []\<rparr>"

definition literal :: "string \<Rightarrow> regex" where
  "literal w t = (if js_includes t w then Some [w] else None)"

definition example_runtime :: runtime where
  "example_runtime =
     \<lparr>sentiment_analyze = (\<lambda>t. neutral),
      getClassifications = (\<lambda>c t. Inr (Array [])),
      jobPatterns = [literal ''urgent'', literal ''visa''],
      socialPatterns = [literal ''urgent'', literal ''visa'']\<rparr>"

text \<open>
  Three more runtimes: a classifier that returns two well-formed entries, one whose call
  throws, and one that returns an array holding \<open>null\<close>.
\<close>

definition classifying_runtime :: runtime where
  "classifying_runtime =
     example_runtime\<lparr>getClassifications :=
       (\<lambda>c t. Inr (Array [Val \<lparr>label = ''legitimate'', cvalue = 0.5\<rparr>,
                             Val \<lparr>label = ''scam'', cvalue = 0.5\<rparr>]))\<rparr>"

definition throwing_runtime :: runtime where
  "throwing_runtime =
     example_runtime\<lparr>getClassifications := (\<lambda>c t. Inl (Thrown ''classifier unavailable''))\<rparr>"

definition malformed_runtime :: runtime where
  "malformed_runtime = example_runtime\<lparr>getClassifications := (\<lambda>c t. Inr (Array [Null]))\<rparr>"

text \<open>
  Job postings: one with no field at all, one whose title and description carry scam
  vocabulary, and one whose \<open>company\<close> is \<open>null\<close>.
\<close>

definition empty_job :: jobData where
  "empty_job =
     \<lparr>job_uid = Undefined, job_id = Undefined, title = Undefined, description = Undefined,
      company = Undefined, requirements = Undefined, responsibilities = Undefined,
      contactInfo = Undefined\<rparr>"

definition scam_job :: jobData where
  "scam_job =
     empty_job\<lparr>job_uid := Val ''j1'',
                title := Val ''Urgent: data entry, work from home'',
                description := Val ''Sign up fee required''\<rparr>"

definition null_company_job :: jobData where
  "null_company_job = empty_job\<lparr>job_uid := Val ''j3'', company := Null\<rparr>"

text \<open>Posts: three keywords; four keywords and an engagement above one half; five
  keywords and two pattern matches; and a post with likes but no followers.\<close>

definition post_a :: content where
  "post_a = \<lparr>post_text = Val ''Winner! Prize! Lottery!'', engagement = Undefined\<rparr>"

definition post_b :: content where
  "post_b = \<lparr>post_text = Val ''winner prize lottery affiliate'',
             engagement = Val \<lparr>followers = Val 800, likes = Val 500\<rparr>\<rparr>"

definition post_c :: content where
  "post_c = \<lparr>post_text = Val ''urgent visa winner prize lottery affiliate'', engagement = Null\<rparr>"

definition zero_followers_post :: content where
  "zero_followers_post =
     \<lparr>post_text = Val [], engagement = Val \<lparr>followers = Val 0, likes = Val 10\<rparr>\<rparr>"

text \<open>The result of the analysis of the last post.\<close>

definition zero_followers_analysis :: social_analysis where
  "zero_followers_analysis =
     \<lparr>confidence = 0, flaggedKeywords = [], flaggedPatterns = [], sentiment = neutral,
      isSuspicious = False, detectedScamTypes = [], riskLevel = Low\<rparr>"

text \<open>A training example, and a batch of five postings whose third has a \<open>null\<close>
  company.\<close>

definition example_item :: training_example where
  "example_item = \<lparr>ex_text = ''Pay a fee to start'', ex_label = ''scam''\<rparr>"

definition example_batch :: "jobData list" where
  "example_batch = [empty_job, scam_job, null_company_job, empty_job, empty_job]"

section \<open>Facts about the helpers\<close>

lemma js_includes_sublist: "js_includes t k = sublist k t"
  by (induction t) (simp_all add: sublist_Cons_right)

lemma set_uniq: "set (uniq xs) = set xs"
  by (induction xs rule: uniq.induct) auto

lemma distinct_uniq: "distinct (uniq xs)"
  by (induction xs rule: uniq.induct) (auto simp: set_uniq)

lemma uniq_filter: "uniq (filter P xs) = filter P (uniq xs)"
proof (induction xs rule: uniq.induct)
  case 1
  show ?case by simp
next
  case (2 x xs)
  have swap: "filter (\<lambda>y. y \<noteq> x) (filter P xs) = filter P (filter (\<lambda>y. y \<noteq> x) xs)"
    by (simp add: conj_commute)
  show ?case
  proof (cases "P x")
    case True
    with 2 swap show ?thesis by simp
  next
    case False
    then have "filter P (filter (\<lambda>y. y \<noteq> x) xs) = filter P xs"
      by (induction xs) auto
    with False 2 show ?thesis by simp
  qed
qed

lemma uniq_distinct: "distinct xs \<Longrightarrow> uniq xs = xs"
proof (induction xs)
  case Nil
  show ?case by simp
next
  case (Cons x xs)
  then have "filter (\<lambda>y. y \<noteq> x) xs = xs"
    by (simp add: filter_id_conv) blast
  with Cons show ?case by simp
qed

lemma subseq_uniq: "subseq (uniq xs) xs"
proof (induction xs rule: uniq.induct)
  case 1
  show ?case by simp
next
  case (2 x xs)
  have "subseq (filter (\<lambda>y. y \<noteq> x) xs) xs" by simp
  with 2 have "subseq (uniq (filter (\<lambda>y. y \<noteq> x) xs)) xs"
    by (rule subseq_order.trans)
  then show ?case by simp
qed

lemma clamp01_min_max: "min (max x 0) 1 = clamp01 x"
  by (simp add: clamp01_def min_def max_def)

lemma clamp01_min: "0 \<le> x \<Longrightarrow> min x 1 = clamp01 x"
  by (simp add: clamp01_def min_def)

lemma clamp01_bounds: "0 \<le> clamp01 x \<and> clamp01 x \<le> 1"
  by (simp add: clamp01_def)

lemma length_redFlags: "length (redFlags fk) = true_red_flags fk"
  by (simp add: redFlags_def true_red_flags_def)

lemma find_scam_objects:
  "find_scam (map Val cs) = Inr (List.find (\<lambda>c. label c = ''scam'') cs)"
  by (induction cs) (simp_all add: property_of_def)

lemma adjust_by_bayes_objects:
  "adjust_by_bayes r (Array (map Val cs))
     = Inr (if cs \<noteq> [] then (r + scam_probability cs) / 2 else r)"
  by (simp add: adjust_by_bayes_def find_scam_objects scam_probability_def)

lemma adjust_by_bayes_NoList: "adjust_by_bayes r NoList = Inr r"
  by (simp add: adjust_by_bayes_def)

lemma bayesResult_tfidf: "bayesResult rt (svc\<lparr>tfidf := d\<rparr>) t = bayesResult rt svc t"
  by (simp add: bayesResult_def)

lemma rule_riskScore_eq:
  "rule_riskScore fk (redFlags fk) s
     = min (real (length fk) / 10) 1 + 0.15 * real (true_red_flags fk)
       + (if comparative s > 0.5 then 0.1 else 0)"
  by (simp add: rule_riskScore_def Let_def length_redFlags)

lemma job_fusion_eq:
  "job_fusion (length fk) (true_red_flags fk) (comparative s) cs
     = clamp01 (if cs \<noteq> [] then (rule_riskScore fk (redFlags fk) s + scam_probability cs) / 2
                else rule_riskScore fk (redFlags fk) s)"
  by (simp only: job_fusion_def Let_def rule_riskScore_eq)

text \<open>The engagement branch adds its bonus exactly when both counters are non-zero
  numbers whose ratio exceeds one half.\<close>

lemma engagementRatio_bonus:
  "(case engagementRatio (default_to \<lparr>followers = Undefined, likes = Undefined\<rparr> eng) of
      Some ratio \<Rightarrow> js_gt ratio 0.5 | None \<Rightarrow> False) = bonus_when_both_nonzero eng"
  by (simp add: engagementRatio_def default_to_def bonus_when_both_nonzero_def js_div_def
           split: js.splits)

lemma engagement_step:
  "(case engagementRatio (default_to \<lparr>followers = Undefined, likes = Undefined\<rparr> eng) of
      Some ratio \<Rightarrow> if js_gt ratio 0.5 then x + 0.2 else x
    | None \<Rightarrow> x)
     = x + (if bonus_when_both_nonzero eng then 0.2 else (0::real))"
  using engagementRatio_bonus [of eng]
  by (cases "engagementRatio (default_to \<lparr>followers = Undefined, likes = Undefined\<rparr> eng)") auto

lemma social_riskScore_eq:
  "social_riskScore fk fp (default_to \<lparr>followers = Undefined, likes = Undefined\<rparr> eng) s
     = social_fusion (length fk) (length fp) (bonus_when_both_nonzero eng) (comparative s)"
proof -
  define b where "b = (if bonus_when_both_nonzero eng then 0.2 else (0::real))"
  define v where "v = (if comparative s > 0.8 then 0.15 else (0::real))"
  define k where "k = min (real (length fk) * 0.1) 0.5"
  define p where "p = min (real (length fp) * 0.15) 0.5"
  have nonneg: "0 \<le> k + p + b + v"
    by (simp add: k_def p_def b_def v_def min_def)
  have k0: "length fk = 0 \<Longrightarrow> k = 0" and p0: "length fp = 0 \<Longrightarrow> p = 0"
    by (simp_all add: k_def p_def)
  have "social_riskScore fk fp (default_to \<lparr>followers = Undefined, likes = Undefined\<rparr> eng) s
          = min (k + p + b + v) 1"
    unfolding social_riskScore_def Let_def engagement_step
    unfolding b_def [symmetric] k_def [symmetric] p_def [symmetric]
    using k0 p0 by (auto simp: v_def)
  also have "\<dots> = clamp01 (k + p + b + v)" using nonneg by (rule clamp01_min)
  finally show ?thesis
    by (simp only: social_fusion_def k_def p_def b_def v_def)
qed

lemma social_text:
  "post_text c \<noteq> Null \<Longrightarrow>
   property_of (default_to [] (post_text c)) ''toLowerCase'' = Inr (or_empty (post_text c))"
  by (cases "post_text c") (simp_all add: default_to_def property_of_def or_empty_def)

text \<open>The analyses in closed form.\<close>

lemma analyzeJobPosting_no_text:
  "fullText job = Inl e \<Longrightarrow> analyzeJobPosting rt svc job = (Inl e, svc)"
  by (simp add: analyzeJobPosting_def)

lemma analyzeJobPosting_error:
  assumes "fullText job = Inr t"
    and "adjust_by_bayes
           (rule_riskScore (scanKeywords suspiciousKeywords t)
              (redFlags (scanKeywords suspiciousKeywords t)) (sentiment_analyze rt t))
           (bayesResult rt svc t) = Inl e"
  shows "analyzeJobPosting rt svc job = (Inl e, svc\<lparr>tfidf := tfidf svc @ [t]\<rparr>)"
  using assms by (simp add: analyzeJobPosting_def Let_def bayesResult_tfidf)

lemma analyzeJobPosting_result:
  assumes "fullText job = Inr t"
    and "adjust_by_bayes
           (rule_riskScore (scanKeywords suspiciousKeywords t)
              (redFlags (scanKeywords suspiciousKeywords t)) (sentiment_analyze rt t))
           (bayesResult rt svc t) = Inr r"
  shows "analyzeJobPosting rt svc job
     = (Inr \<lparr>confidence = clamp01 r,
              flaggedKeywords = scanKeywords suspiciousKeywords t,
              flaggedPatterns = scanPatterns (jobPatterns rt) t,
              sentiment = sentiment_analyze rt t,
              isScam = (clamp01 r > 0.5),
              scamTypes = job_scamTypes (scanKeywords suspiciousKeywords t),
              riskFactors = redFlags (scanKeywords suspiciousKeywords t),
              recommendations =
                job_recommendations (clamp01 r > 0.5) (scanKeywords suspiciousKeywords t)
                  (redFlags (scanKeywords suspiciousKeywords t))\<rparr>,
        svc\<lparr>tfidf := tfidf svc @ [t]\<rparr>)"
  using assms by (simp add: analyzeJobPosting_def Let_def bayesResult_tfidf clamp01_min_max)

lemma analyzeSocialMediaContent_result:
  assumes "post_text c \<noteq> Null"
  shows "analyzeSocialMediaContent rt c
     = Inr \<lparr>confidence =
              social_fusion
                (length (scanKeywords socialKeywords (toLowerCase (or_empty (post_text c)))))
                (length (scanPatterns (socialPatterns rt) (toLowerCase (or_empty (post_text c)))))
                (bonus_when_both_nonzero (engagement c))
                (comparative (sentiment_analyze rt (toLowerCase (or_empty (post_text c))))),
            flaggedKeywords = scanKeywords socialKeywords (toLowerCase (or_empty (post_text c))),
            flaggedPatterns =
              scanPatterns (socialPatterns rt) (toLowerCase (or_empty (post_text c))),
            sentiment = sentiment_analyze rt (toLowerCase (or_empty (post_text c))),
            isSuspicious =
              (social_fusion
                (length (scanKeywords socialKeywords (toLowerCase (or_empty (post_text c)))))
                (length (scanPatterns (socialPatterns rt) (toLowerCase (or_empty (post_text c)))))
                (bonus_when_both_nonzero (engagement c))
                (comparative (sentiment_analyze rt (toLowerCase (or_empty (post_text c))))) > 0.4),
            detectedScamTypes =
              social_scamTypes (scanKeywords socialKeywords (toLowerCase (or_empty (post_text c)))),
            riskLevel =
              determine_riskLevel (social_fusion
                (length (scanKeywords socialKeywords (toLowerCase (or_empty (post_text c)))))
                (length (scanPatterns (socialPatterns rt) (toLowerCase (or_empty (post_text c)))))
                (bonus_when_both_nonzero (engagement c))
                (comparative (sentiment_analyze rt (toLowerCase (or_empty (post_text c))))))\<rparr>"
  by (simp add: analyzeSocialMediaContent_def Let_def social_text [OF assms] social_riskScore_eq)

lemma analyzeJobPosting_snd:
  "snd (analyzeJobPosting rt svc job)
     = svc\<lparr>tfidf := tfidf svc @ (case fullText job of Inl e \<Rightarrow> [] | Inr t \<Rightarrow> [t])\<rparr>"
  by (simp add: analyzeJobPosting_def Let_def split: sum.splits)

lemma analyzeJobPosting_fst_tfidf:
  "fst (analyzeJobPosting rt (svc\<lparr>tfidf := d\<rparr>) job) = fst (analyzeJobPosting rt svc job)"
  by (simp add: analyzeJobPosting_def Let_def bayesResult_def split: sum.splits)

lemma or_empty_default: "or_empty (default_to [] x) = or_empty x"
  by (cases x) (simp_all add: or_empty_def default_to_def)

lemma or_nil_default: "or_nil (default_to [] x) = or_nil x"
  by (cases x) (simp_all add: or_nil_def default_to_def)

text \<open>When \<open>company\<close> and \<open>contactInfo\<close> are objects or absent, the text is built.\<close>

lemma fullText_defined:
  assumes "default_to \<lparr>name = Undefined\<rparr> (company job) = Val co"
    and "default_to \<lparr>email = Undefined, phone = Undefined, website = Undefined\<rparr>
           (contactInfo job) = Val ci"
  shows "fullText job
           = Inr (toLowerCase (join '' ''
               ([or_empty (title job), or_empty (description job), or_empty (name co)]
                @ or_nil (requirements job) @ or_nil (responsibilities job)
                @ [or_empty (email ci), or_empty (phone ci), or_empty (website ci)])))"
  unfolding fullText_def Let_def assms or_empty_default or_nil_default
  by (simp add: property_of_def)

lemma toLowerCase_idem: "toLowerCase (toLowerCase s) = toLowerCase s"
proof -
  have "lower_char (lower_char c) = lower_char c" for c
    by (simp add: lower_char_def split: option.splits)
  then show ?thesis by (simp add: toLowerCase_def)
qed

lemma not_bonus:
  assumes "eng = Null \<or> eng = Undefined
           \<or> (\<exists>e. eng = Val e \<and> (absent_or_zero (followers e) \<or> absent_or_zero (likes e)))"
  shows "\<not> bonus_when_both_nonzero eng"
  using assms
  by (auto simp: bonus_when_both_nonzero_def absent_or_zero_def split: js.splits)

lemma engagementRatio_skipped:
  assumes "eng = Null \<or> eng = Undefined
           \<or> (\<exists>e. eng = Val e \<and> (absent_or_zero (followers e) \<or> absent_or_zero (likes e)))"
  shows "engagementRatio (default_to \<lparr>followers = Undefined, likes = Undefined\<rparr> eng) = None"
  using assms
  by (auto simp: engagementRatio_def default_to_def absent_or_zero_def split: js.splits)

lemma engagementRatio_finite: "engagementRatio eng = Some r \<Longrightarrow> \<exists>x. r = Finite x"
  by (auto simp: engagementRatio_def js_div_def split: js.splits if_splits)

lemma analyzeSocialMediaContent_null_text:
  "post_text c = Null \<Longrightarrow>
   analyzeSocialMediaContent rt c
     = Inl (TypeError ''Cannot read properties of null (reading toLowerCase)'')"
  by (simp add: analyzeSocialMediaContent_def default_to_def property_of_def)

lemma analyzeJobPosting_fst_classifier:
  "bayesClassifier s1 = bayesClassifier s2 \<Longrightarrow>
   fst (analyzeJobPosting rt s1 job) = fst (analyzeJobPosting rt s2 job)"
  by (simp add: analyzeJobPosting_def Let_def bayesResult_def split: sum.splits)

lemma batchAnalyze_map:
  "bayesClassifier svc' = bayesClassifier svc \<Longrightarrow>
   fst (batchAnalyze rt svc' jobs)
     = map (\<lambda>job. batch_entry job (fst (analyzeJobPosting rt svc job))) jobs"
proof (induction jobs arbitrary: svc')
  case Nil
  show ?case by simp
next
  case (Cons job jobs)
  have "bayesClassifier (snd (analyzeJobPosting rt svc' job)) = bayesClassifier svc"
    using Cons.prems by (simp add: analyzeJobPosting_snd)
  from Cons.IH [OF this] analyzeJobPosting_fst_classifier [OF Cons.prems, of rt job]
  show ?case by (simp add: case_prod_beta)
qed

lemma legitimate_split:
  assumes "list_all (\<lambda>r. is_degraded (analysis r) = (is_degraded (analysis r) \<and> \<not> analysis_isScam (analysis r))) rs"
  shows "length (filter (\<lambda>r. \<not> analysis_isScam (analysis r)) rs)
           = length (filter (\<lambda>r. \<not> is_degraded (analysis r) \<and> \<not> analysis_isScam (analysis r)) rs)
             + length (filter (\<lambda>r. is_degraded (analysis r)) rs)"
  using assms by (induction rs) auto

lemma batch_entry_degraded:
  "is_degraded (analysis (batch_entry job out))
     = (is_degraded (analysis (batch_entry job out))
        \<and> \<not> analysis_isScam (analysis (batch_entry job out)))"
  by (cases out) (simp_all add: batch_entry_def)

lemma addDocuments_objects:
  "addDocuments c (map Val xs) = (None, c\<lparr>docs := docs c @ xs\<rparr>)"
  by (induction xs arbitrary: c) (simp_all add: addDocument_def property_of_def)

lemma addDocuments_null:
  "addDocuments c (map Val xs @ Null # rest)
     = (Some (TypeError ''Cannot read properties of null (reading text)''),
        c\<lparr>docs := docs c @ xs\<rparr>)"
  by (induction xs arbitrary: c) (simp_all add: addDocument_def property_of_def)

lemma addDocuments_undefined:
  "addDocuments c (map Val xs @ Undefined # rest)
     = (Some (TypeError ''Cannot read properties of undefined (reading text)''),
        c\<lparr>docs := docs c @ xs\<rparr>)"
  by (induction xs arbitrary: c) (simp_all add: addDocument_def property_of_def)

lemma addDocuments_malformed:
  assumes "bad = Null \<or> bad = Undefined"
  shows "\<exists>e. addDocuments c (map Val xs @ bad # rest) = (Some e, c\<lparr>docs := docs c @ xs\<rparr>)"
  using assms addDocuments_null addDocuments_undefined by blast

section \<open>The examples, evaluated\<close>

lemma fullText_empty_job: "fullText empty_job = Inr ''     ''"
  by code_simp

lemma fullText_scam_job:
  "fullText scam_job = Inr ''urgent: data entry, work from home sign up fee required    ''"
  by code_simp

lemma fullText_null_company_job:
  "fullText null_company_job = Inl (TypeError ''Cannot read properties of null (reading name)'')"
  by code_simp

lemma scan_empty_job: "scanKeywords suspiciousKeywords ''     '' = []"
  by code_simp

lemma scan_scam_job:
  "scanKeywords suspiciousKeywords ''urgent: data entry, work from home sign up fee required    ''
     = [''fee'', ''sign up fee'', ''work from home'', ''urgent'', ''data entry'']"
  by code_simp

lemma flags_scam_job:
  "true_red_flags [''fee'', ''sign up fee'', ''work from home'', ''urgent'', ''data entry''] = 4"
  by code_simp

lemma flags_none: "redFlags [] = []"
  by code_simp

lemma initializeBayesClassifier_eq:
  "initializeBayesClassifier = \<lparr>docs = trainingData, trained = trainingData\<rparr>"
  by (simp add: initializeBayesClassifier_def trainingData_def addDocument_def train_def)

lemma scan_post_a:
  "scanKeywords socialKeywords (toLowerCase ''Winner! Prize! Lottery!'') = [''winner'', ''prize'', ''lottery'']"
  by code_simp

lemma scan_post_b:
  "scanKeywords socialKeywords (toLowerCase ''winner prize lottery affiliate'')
     = [''winner'', ''prize'', ''lottery'', ''affiliate'']"
  by code_simp

lemma scan_post_c:
  "scanKeywords socialKeywords (toLowerCase ''urgent visa winner prize lottery affiliate'')
     = [''urgent'', ''winner'', ''prize'', ''lottery'', ''affiliate'']"
  by code_simp

lemma patterns_post_a:
  "scanPatterns [literal ''urgent'', literal ''visa''] (toLowerCase ''Winner! Prize! Lottery!'') = []"
  by code_simp

lemma patterns_post_b:
  "scanPatterns [literal ''urgent'', literal ''visa''] (toLowerCase ''winner prize lottery affiliate'') = []"
  by code_simp

lemma patterns_post_c:
  "scanPatterns [literal ''urgent'', literal ''visa'']
     (toLowerCase ''urgent visa winner prize lottery affiliate'') = [''urgent'', ''visa'']"
  by code_simp

lemma scan_empty: "scanKeywords socialKeywords (toLowerCase []) = []"
  by code_simp

lemma patterns_empty: "scanPatterns [literal ''urgent'', literal ''visa''] (toLowerCase []) = []"
  by code_simp

lemma analysis_zero_followers_post:
  "analyzeSocialMediaContent example_runtime zero_followers_post = Inr zero_followers_analysis"
proof -
  have body: "post_text zero_followers_post \<noteq> Null" by (simp add: zero_followers_post_def)
  have types: "social_scamTypes [] = []" by code_simp
  show ?thesis
    unfolding analyzeSocialMediaContent_result [OF body]
    by (simp add: zero_followers_post_def or_empty_def example_runtime_def neutral_def
          scan_empty patterns_empty types social_fusion_def clamp01_def
          bonus_when_both_nonzero_def determine_riskLevel_def zero_followers_analysis_def)
qed

lemma entry_empty_job:
  "batch_entry empty_job (fst (analyzeJobPosting example_runtime new_service empty_job))
     = \<lparr>jobId = Undefined,
        analysis = Analysed
          \<lparr>confidence = 0, flaggedKeywords = [], flaggedPatterns = [], sentiment = neutral,
           isScam = False, scamTypes = [], riskFactors = [],
           recommendations = [''Appears legitimate based on current analysis'',
                              ''Continue monitoring for user reports'']\<rparr>\<rparr>"
proof -
  have adj: "adjust_by_bayes
          (rule_riskScore (scanKeywords suspiciousKeywords ''     '')
             (redFlags (scanKeywords suspiciousKeywords ''     ''))
             (sentiment_analyze example_runtime ''     ''))
          (bayesResult example_runtime new_service ''     '')
        = Inr (rule_riskScore (scanKeywords suspiciousKeywords ''     '')
             (redFlags (scanKeywords suspiciousKeywords ''     ''))
             (sentiment_analyze example_runtime ''     ''))"
    by (simp add: adjust_by_bayes_def bayesResult_def new_service_def example_runtime_def)
  have pats: "scanPatterns [literal ''urgent'', literal ''visa''] ''     '' = []" by code_simp
  have types: "job_scamTypes [] = []" by code_simp
  have recs: "job_recommendations False [] []
                = [''Appears legitimate based on current analysis'',
                   ''Continue monitoring for user reports'']"
    by (simp add: job_recommendations_def)
  from analyzeJobPosting_result [OF fullText_empty_job adj]
  show ?thesis
    by (simp add: batch_entry_def scan_empty_job flags_none pats types recs
          example_runtime_def neutral_def rule_riskScore_def clamp01_def
          empty_job_def js_or_def)
qed

lemma entry_scam_job:
  "analysis_isScam (analysis
      (batch_entry scam_job (fst (analyzeJobPosting example_runtime new_service scam_job))))
   \<and> \<not> is_degraded (analysis
      (batch_entry scam_job (fst (analyzeJobPosting example_runtime new_service scam_job))))"
proof -
  let ?t = "''urgent: data entry, work from home sign up fee required    ''"
  have adj: "adjust_by_bayes
          (rule_riskScore (scanKeywords suspiciousKeywords ?t)
             (redFlags (scanKeywords suspiciousKeywords ?t))
             (sentiment_analyze example_runtime ?t))
          (bayesResult example_runtime new_service ?t)
        = Inr (rule_riskScore (scanKeywords suspiciousKeywords ?t)
             (redFlags (scanKeywords suspiciousKeywords ?t))
             (sentiment_analyze example_runtime ?t))"
    by (simp add: adjust_by_bayes_def bayesResult_def new_service_def example_runtime_def)
  from analyzeJobPosting_result [OF fullText_scam_job adj]
  show ?thesis
    by (simp add: batch_entry_def rule_riskScore_eq scan_scam_job flags_scam_job
          example_runtime_def neutral_def clamp01_def)
qed

lemma entry_null_company_job:
  "batch_entry null_company_job
     (fst (analyzeJobPosting example_runtime new_service null_company_job))
     = \<lparr>jobId = Val ''j3'',
        analysis = Degraded
          \<lparr>err_isScam = False, err_confidence = 0,
           error_message = ''Cannot read properties of null (reading name)''\<rparr>\<rparr>"
  unfolding batch_entry_def analyzeJobPosting_no_text [OF fullText_null_company_job]
  by (simp add: null_company_job_def empty_job_def js_or_def)

section \<open>C1: the fusion of a job posting\<close>

text \<open>
  C1. For every job posting whose text can be built, and a classifier that returns no list
  (or throws) or a list of entries: the analysis returns a result whose confidence is
  min(|flaggedKeywords| / 10, 1) + 0.15 times the number of true red flags, plus 0.1 when
  the comparative sentiment exceeds 0.5, replaced by the mean of that score and the
  probability of the label "scam" (0 if absent) when the list is not empty, clamped to
  the interval from 0 to 1; and isScam is confidence > 0.5.
\<close>

theorem analyzeJobPosting_fusion:
  assumes norm: "fullText job = Inr t"
    and out: "bayesResult rt svc t = NoList \<and> cs = [] \<or> bayesResult rt svc t = Array (map Val cs)"
  shows "\<exists>a. fst (analyzeJobPosting rt svc job) = Inr a
           \<and> flaggedKeywords a = scanKeywords suspiciousKeywords t
           \<and> sentiment a = sentiment_analyze rt t
           \<and> confidence a = job_fusion (length (flaggedKeywords a))
                                        (true_red_flags (flaggedKeywords a))
                                        (comparative (sentiment a)) cs
           \<and> 0 \<le> confidence a \<and> confidence a \<le> 1
           \<and> isScam a = (confidence a > 0.5)"
proof -
  define fk where "fk = scanKeywords suspiciousKeywords t"
  define s where "s = sentiment_analyze rt t"
  define r where "r = rule_riskScore fk (redFlags fk) s"
  define r2 where "r2 = (if cs \<noteq> [] then (r + scam_probability cs) / 2 else r)"
  have adj: "adjust_by_bayes r (bayesResult rt svc t) = Inr r2"
  proof -
    from out consider (none) "bayesResult rt svc t = NoList" "cs = []"
      | (list) "bayesResult rt svc t = Array (map Val cs)"
      by blast
    then show ?thesis
    proof cases
      case none
      then show ?thesis by (simp add: adjust_by_bayes_NoList r2_def)
    next
      case list
      then show ?thesis by (simp only: adjust_by_bayes_objects r2_def)
    qed
  qed
  have eq: "job_fusion (length fk) (true_red_flags fk) (comparative s) cs = clamp01 r2"
    by (simp only: job_fusion_eq r2_def r_def)
  have "fst (analyzeJobPosting rt svc job)
          = Inr \<lparr>confidence = clamp01 r2, flaggedKeywords = fk,
                  flaggedPatterns = scanPatterns (jobPatterns rt) t, sentiment = s,
                  isScam = (clamp01 r2 > 0.5), scamTypes = job_scamTypes fk,
                  riskFactors = redFlags fk,
                  recommendations = job_recommendations (clamp01 r2 > 0.5) fk (redFlags fk)\<rparr>"
    using norm adj
    by (simp add: analyzeJobPosting_def Let_def bayesResult_tfidf clamp01_min_max
          flip: fk_def s_def r_def)
  then show ?thesis
    using eq clamp01_bounds [of r2] by (simp add: fk_def s_def)
qed

theorem analyzeJobPosting_fusion_witness:
  "\<exists>a. fst (analyzeJobPosting classifying_runtime new_service scam_job) = Inr a
        \<and> confidence a = 0.8 \<and> isScam a"
proof -
  let ?t = "''urgent: data entry, work from home sign up fee required    ''"
  let ?cs = "[\<lparr>label = ''legitimate'', cvalue = 0.5\<rparr>, \<lparr>label = ''scam'', cvalue = 0.5\<rparr>]"
  have out: "bayesResult classifying_runtime new_service ?t = NoList \<and> ?cs = []
             \<or> bayesResult classifying_runtime new_service ?t = Array (map Val ?cs)"
    by (simp add: bayesResult_def new_service_def classifying_runtime_def)
  from analyzeJobPosting_fusion [OF fullText_scam_job out]
  obtain a where a: "fst (analyzeJobPosting classifying_runtime new_service scam_job) = Inr a"
    and fk: "flaggedKeywords a = scanKeywords suspiciousKeywords ?t"
    and se: "sentiment a = sentiment_analyze classifying_runtime ?t"
    and co: "confidence a = job_fusion (length (flaggedKeywords a))
               (true_red_flags (flaggedKeywords a)) (comparative (sentiment a)) ?cs"
    and sc: "isScam a = (confidence a > 0.5)"
    by blast
  have "confidence a = 0.8"
    unfolding co fk se scan_scam_job flags_scam_job
    by (simp add: classifying_runtime_def example_runtime_def neutral_def job_fusion_def
          scam_probability_def clamp01_def)
  with a sc show ?thesis by simp
qed

section \<open>C2: the fusion of a social post\<close>

text \<open>
  C2. For every social post whose text is a string or absent, the analysis returns a result
  whose confidence is min(|flaggedKeywords| * 0.1, 0.5) + min(|flaggedPatterns| * 0.15, 0.5),
  plus 0.2 when the engagement metrics include both followers and likes with
  likes/followers > 0.5 (a follower count of 0 has no ratio), plus 0.15 when the comparative
  sentiment exceeds 0.8, clamped to the interval from 0 to 1; and isSuspicious is
  confidence > 0.4.
\<close>

theorem analyzeSocialMediaContent_fusion:
  assumes "post_text c \<noteq> Null"
  shows "\<exists>a. analyzeSocialMediaContent rt c = Inr a
           \<and> flaggedKeywords a = scanKeywords socialKeywords (toLowerCase (or_empty (post_text c)))
           \<and> flaggedPatterns a
               = scanPatterns (socialPatterns rt) (toLowerCase (or_empty (post_text c)))
           \<and> sentiment a = sentiment_analyze rt (toLowerCase (or_empty (post_text c)))
           \<and> confidence a = social_fusion (length (flaggedKeywords a)) (length (flaggedPatterns a))
                                  (bonus_when_both_nonzero (engagement c))
                                  (comparative (sentiment a))
           \<and> 0 \<le> confidence a \<and> confidence a \<le> 1
           \<and> isSuspicious a = (confidence a > 0.4)"
proof -
  have bounds: "0 \<le> social_fusion k p b x \<and> social_fusion k p b x \<le> 1" for k p b x
    unfolding social_fusion_def by (rule clamp01_bounds)
  show ?thesis
    using bounds
    by (simp add: analyzeSocialMediaContent_def Let_def social_text [OF assms] social_riskScore_eq)
qed

theorem analyzeSocialMediaContent_fusion_witness:
  "\<exists>a. analyzeSocialMediaContent example_runtime post_b = Inr a
        \<and> flaggedKeywords a = [''winner'', ''prize'', ''lottery'', ''affiliate'']
        \<and> confidence a = 0.6 \<and> isSuspicious a"
proof -
  have body: "post_text post_b \<noteq> Null" by (simp add: post_b_def)
  from analyzeSocialMediaContent_fusion [OF body, of example_runtime]
  obtain a where a: "analyzeSocialMediaContent example_runtime post_b = Inr a"
    and fk: "flaggedKeywords a
               = scanKeywords socialKeywords (toLowerCase (or_empty (post_text post_b)))"
    and fp: "flaggedPatterns a
               = scanPatterns (socialPatterns example_runtime)
                   (toLowerCase (or_empty (post_text post_b)))"
    and se: "sentiment a
               = sentiment_analyze example_runtime (toLowerCase (or_empty (post_text post_b)))"
    and co: "confidence a
               = social_fusion (length (flaggedKeywords a)) (length (flaggedPatterns a))
                   (bonus_when_both_nonzero (engagement post_b)) (comparative (sentiment a))"
    and su: "isSuspicious a = (confidence a > 0.4)"
    by blast
  have fk': "flaggedKeywords a = [''winner'', ''prize'', ''lottery'', ''affiliate'']"
    using fk by (simp add: post_b_def or_empty_def scan_post_b)
  have fp': "flaggedPatterns a = []"
    using fp by (simp add: post_b_def or_empty_def example_runtime_def patterns_post_b)
  have se': "comparative (sentiment a) = 0"
    using se by (simp add: example_runtime_def neutral_def)
  have "confidence a = 0.6"
    unfolding co fk' fp' se'
    by (simp add: post_b_def bonus_when_both_nonzero_def social_fusion_def clamp01_def)
  with a fk' su show ?thesis by simp
qed

section \<open>C3: the risk level of a social post\<close>

text \<open>
  C3. In every result of the analysis of a social post, the risk level is low when the
  confidence is below 0.3, medium from 0.3 to below 0.6, high from 0.6 to below 0.8 and
  critical from 0.8 on; the scores 0.3, 0.6 and 0.8 themselves map to medium, high and
  critical.
\<close>

theorem riskLevel_thresholds:
  assumes "analyzeSocialMediaContent rt c = Inr a"
  shows "(confidence a < 0.3 \<longrightarrow> riskLevel a = Low)
       \<and> (0.3 \<le> confidence a \<and> confidence a < 0.6 \<longrightarrow> riskLevel a = Medium)
       \<and> (0.6 \<le> confidence a \<and> confidence a < 0.8 \<longrightarrow> riskLevel a = High)
       \<and> (0.8 \<le> confidence a \<longrightarrow> riskLevel a = Critical)
       \<and> determine_riskLevel 0.3 = Medium
       \<and> determine_riskLevel 0.6 = High
       \<and> determine_riskLevel 0.8 = Critical"
proof -
  have "riskLevel a = determine_riskLevel (confidence a)"
    using assms
    by (auto simp: analyzeSocialMediaContent_def Let_def split: sum.splits)
  then show ?thesis
    by (simp add: determine_riskLevel_def)
qed

theorem riskLevel_thresholds_witness:
  "(\<exists>a. analyzeSocialMediaContent example_runtime post_a = Inr a
         \<and> confidence a = 0.3 \<and> riskLevel a = Medium)
   \<and> (\<exists>a. analyzeSocialMediaContent example_runtime post_b = Inr a
         \<and> confidence a = 0.6 \<and> riskLevel a = High)
   \<and> (\<exists>a. analyzeSocialMediaContent example_runtime post_c = Inr a
         \<and> confidence a = 0.8 \<and> riskLevel a = Critical)"
proof -
  have a: "post_text post_a \<noteq> Null" and b: "post_text post_b \<noteq> Null"
    and c: "post_text post_c \<noteq> Null"
    by (simp_all add: post_a_def post_b_def post_c_def)
  note ra = analyzeSocialMediaContent_result [OF a, of example_runtime]
  note rb = analyzeSocialMediaContent_result [OF b, of example_runtime]
  note rc = analyzeSocialMediaContent_result [OF c, of example_runtime]
  have ca: "confidence (projr (analyzeSocialMediaContent example_runtime post_a)) = 0.3"
    unfolding ra
    by (simp add: post_a_def or_empty_def example_runtime_def neutral_def scan_post_a
          patterns_post_a social_fusion_def clamp01_def bonus_when_both_nonzero_def)
  have cb: "confidence (projr (analyzeSocialMediaContent example_runtime post_b)) = 0.6"
    unfolding rb
    by (simp add: post_b_def or_empty_def example_runtime_def neutral_def scan_post_b
          patterns_post_b social_fusion_def clamp01_def bonus_when_both_nonzero_def)
  have cc: "confidence (projr (analyzeSocialMediaContent example_runtime post_c)) = 0.8"
    unfolding rc
    by (simp add: post_c_def or_empty_def example_runtime_def neutral_def scan_post_c
          patterns_post_c social_fusion_def clamp01_def bonus_when_both_nonzero_def)
  obtain xa where xa: "analyzeSocialMediaContent example_runtime post_a = Inr xa"
    using ra by blast
  obtain xb where xb: "analyzeSocialMediaContent example_runtime post_b = Inr xb"
    using rb by blast
  obtain xc where xc: "analyzeSocialMediaContent example_runtime post_c = Inr xc"
    using rc by blast
  from ca cb cc xa xb xc have v: "confidence xa = 0.3" "confidence xb = 0.6" "confidence xc = 0.8"
    by simp_all
  from riskLevel_thresholds [OF xa] v(1) have "riskLevel xa = Medium" by simp
  moreover from riskLevel_thresholds [OF xb] v(2) have "riskLevel xb = High" by simp
  moreover from riskLevel_thresholds [OF xc] v(3) have "riskLevel xc = Critical" by simp
  ultimately show ?thesis using xa xb xc v by simp
qed


section \<open>C4: updating the model\<close>

text \<open>
  C4, as amended. For every list of training examples that are objects, \<open>updateModel\<close>
  appends them to the corpus and retrains, which is \<open>train\<close> on the corpus followed by the
  new examples. For a list with an item that is \<open>null\<close> or \<open>undefined\<close>, \<open>updateModel\<close>
  throws at the first such item and does not reach \<open>train\<close>: the statistics of the last
  training are not rebuilt, and the examples before that item stay in the corpus of the
  classifier.
\<close>

theorem updateModel_effect:
  assumes "bayesClassifier svc = Some c" and "bad = Null \<or> bad = Undefined"
  shows "updateModel svc (map Val xs)
           = (Inr (), svc\<lparr>bayesClassifier := Some (train (c\<lparr>docs := docs c @ xs\<rparr>))\<rparr>)
       \<and> trained (train (c\<lparr>docs := docs c @ xs\<rparr>)) = docs c @ xs
       \<and> (\<exists>e. updateModel svc (map Val xs @ bad # rest)
                 = (Inl e, svc\<lparr>bayesClassifier := Some (c\<lparr>docs := docs c @ xs\<rparr>)\<rparr>))
       \<and> trained (c\<lparr>docs := docs c @ xs\<rparr>) = trained c"
proof -
  have ok: "updateModel svc (map Val xs)
           = (Inr (), svc\<lparr>bayesClassifier := Some (train (c\<lparr>docs := docs c @ xs\<rparr>))\<rparr>)"
    using assms(1) by (simp add: updateModel_def addDocuments_objects)
  from addDocuments_malformed [OF assms(2), of c xs rest]
  obtain e where "addDocuments c (map Val xs @ bad # rest) = (Some e, c\<lparr>docs := docs c @ xs\<rparr>)"
    by blast
  then have "updateModel svc (map Val xs @ bad # rest)
                 = (Inl e, svc\<lparr>bayesClassifier := Some (c\<lparr>docs := docs c @ xs\<rparr>)\<rparr>)"
    using assms(1) by (simp add: updateModel_def)
  with ok show ?thesis by (auto simp: train_def)
qed

theorem updateModel_effect_witness:
  "updateModel new_service (map Val [example_item])
     = (Inr (), new_service\<lparr>bayesClassifier :=
          Some \<lparr>docs = trainingData @ [example_item], trained = trainingData @ [example_item]\<rparr>\<rparr>)
   \<and> (\<exists>e. updateModel new_service (map Val [example_item] @ Null # [])
             = (Inl e, new_service\<lparr>bayesClassifier :=
                  Some \<lparr>docs = trainingData @ [example_item], trained = trainingData\<rparr>\<rparr>))"
proof -
  have c: "bayesClassifier new_service = Some \<lparr>docs = trainingData, trained = trainingData\<rparr>"
    by (simp add: new_service_def initializeBayesClassifier_eq)
  have b: "(Null :: training_example js) = Null \<or> (Null :: training_example js) = Undefined"
    by simp
  from updateModel_effect [OF c b, of "[example_item]" "[]"] show ?thesis
    by (simp add: train_def)
qed

text \<open>
  A failed update is not undone: the example before the \<open>null\<close> item stays in the corpus
  and is part of what the next update trains on, here an update with no example at all.
\<close>

theorem failed_update_keeps_examples:
  "fst (updateModel new_service [Val example_item, Null])
     = Inl (TypeError ''Cannot read properties of null (reading text)'')
   \<and> bayesClassifier new_service = Some \<lparr>docs = trainingData, trained = trainingData\<rparr>
   \<and> bayesClassifier (snd (updateModel new_service [Val example_item, Null]))
       = Some \<lparr>docs = trainingData @ [example_item], trained = trainingData\<rparr>
   \<and> snd (updateModel new_service [Val example_item, Null]) \<noteq> new_service
   \<and> bayesClassifier (snd (updateModel (snd (updateModel new_service [Val example_item, Null])) []))
       = Some \<lparr>docs = trainingData @ [example_item], trained = trainingData @ [example_item]\<rparr>
   \<and> bayesClassifier (snd (updateModel new_service []))
       = Some \<lparr>docs = trainingData, trained = trainingData\<rparr>"
proof -
  have c: "bayesClassifier new_service = Some \<lparr>docs = trainingData, trained = trainingData\<rparr>"
    by (simp add: new_service_def initializeBayesClassifier_eq)
  have u: "updateModel new_service [Val example_item, Null]
             = (Inl (TypeError ''Cannot read properties of null (reading text)''),
                new_service\<lparr>bayesClassifier :=
                  Some \<lparr>docs = trainingData @ [example_item], trained = trainingData\<rparr>\<rparr>)"
    by (simp add: updateModel_def c addDocument_def property_of_def example_item_def)
  have ne: "snd (updateModel new_service [Val example_item, Null]) \<noteq> new_service"
  proof
    assume "snd (updateModel new_service [Val example_item, Null]) = new_service"
    then have "bayesClassifier (snd (updateModel new_service [Val example_item, Null]))
                 = bayesClassifier new_service"
      by simp
    then show False by (simp add: u c)
  qed
  have n: "bayesClassifier (snd (updateModel (snd (updateModel new_service [Val example_item, Null])) []))
       = Some \<lparr>docs = trainingData @ [example_item], trained = trainingData @ [example_item]\<rparr>"
    unfolding u by (simp add: updateModel_def train_def)
  have z: "bayesClassifier (snd (updateModel new_service []))
       = Some \<lparr>docs = trainingData, trained = trainingData\<rparr>"
    by (simp add: updateModel_def c train_def)
  from u c ne n z show ?thesis by simp
qed


section \<open>C5: batch analysis\<close>

text \<open>
  C5, as amended. For every list of N job postings, \<open>batchAnalyze\<close> returns N entries in
  the order of the input. Each entry is the one the posting gets when analysed alone on the
  same service: its analysis, or, when the analysis throws, the degraded result with
  isScam = false, confidence = 0 and the message of the error. The summary counts every
  entry: total = scamsDetected + legitimate = N, and the degraded entries are counted as
  legitimate.
\<close>

theorem batchAnalyze_entries:
  "fst (batchAnalyze rt svc jobs)
     = map (\<lambda>job. \<lparr>jobId = js_or (job_uid job) (job_id job),
                    analysis =
                      (case fst (analyzeJobPosting rt svc job) of
                         Inr a \<Rightarrow> Analysed a
                       | Inl e \<Rightarrow> Degraded \<lparr>err_isScam = False, err_confidence = 0,
                                             error_message = message e\<rparr>)\<rparr>) jobs
   \<and> length (fst (batchAnalyze rt svc jobs)) = length jobs
   \<and> total (batch_summary (fst (batchAnalyze rt svc jobs))) = length jobs
   \<and> scamsDetected (batch_summary (fst (batchAnalyze rt svc jobs)))
       + legitimate (batch_summary (fst (batchAnalyze rt svc jobs))) = length jobs
   \<and> legitimate (batch_summary (fst (batchAnalyze rt svc jobs)))
       = length (filter (\<lambda>r. \<not> is_degraded (analysis r) \<and> \<not> analysis_isScam (analysis r))
                   (fst (batchAnalyze rt svc jobs)))
         + length (filter (\<lambda>r. is_degraded (analysis r)) (fst (batchAnalyze rt svc jobs)))"
proof -
  define rs where "rs = fst (batchAnalyze rt svc jobs)"
  have m: "rs = map (\<lambda>job. batch_entry job (fst (analyzeJobPosting rt svc job))) jobs"
    unfolding rs_def by (rule batchAnalyze_map) simp
  have len: "length rs = length jobs" by (simp add: m)
  have "list_all (\<lambda>r. is_degraded (analysis r)
                    = (is_degraded (analysis r) \<and> \<not> analysis_isScam (analysis r))) rs"
    unfolding m list_all_iff using batch_entry_degraded by auto
  from legitimate_split [OF this]
  have leg: "legitimate (batch_summary rs)
       = length (filter (\<lambda>r. \<not> is_degraded (analysis r) \<and> \<not> analysis_isScam (analysis r)) rs)
         + length (filter (\<lambda>r. is_degraded (analysis r)) rs)"
    by (simp add: batch_summary_def)
  have tot: "scamsDetected (batch_summary rs) + legitimate (batch_summary rs) = length jobs"
    using sum_length_filter_compl [of "\<lambda>r. analysis_isScam (analysis r)" rs] len
    by (simp add: batch_summary_def)
  have exp: "rs = map (\<lambda>job. \<lparr>jobId = js_or (job_uid job) (job_id job),
                    analysis =
                      (case fst (analyzeJobPosting rt svc job) of
                         Inr a \<Rightarrow> Analysed a
                       | Inl e \<Rightarrow> Degraded \<lparr>err_isScam = False, err_confidence = 0,
                                             error_message = message e\<rparr>)\<rparr>) jobs"
    unfolding m by (simp add: batch_entry_def)
  from exp len leg tot show ?thesis
    unfolding rs_def by (simp add: batch_summary_def)
qed


text \<open>
  In a batch of five postings whose third cannot be analysed, the summary reports four
  legitimate postings, the degraded one among them.
\<close>

theorem degraded_counted_as_legitimate:
  "length (fst (batchAnalyze example_runtime new_service example_batch)) = 5
   \<and> fst (batchAnalyze example_runtime new_service example_batch) ! 2
       = \<lparr>jobId = Val ''j3'',
          analysis = Degraded
            \<lparr>err_isScam = False, err_confidence = 0,
             error_message = ''Cannot read properties of null (reading name)''\<rparr>\<rparr>
   \<and> batch_summary (fst (batchAnalyze example_runtime new_service example_batch))
       = \<lparr>total = 5, scamsDetected = 1, legitimate = 4\<rparr>
   \<and> length (filter (\<lambda>r. \<not> is_degraded (analysis r))
               (fst (batchAnalyze example_runtime new_service example_batch))) = 4"
proof -
  have m: "fst (batchAnalyze example_runtime new_service example_batch)
     = map (\<lambda>job. batch_entry job (fst (analyzeJobPosting example_runtime new_service job)))
         example_batch"
    by (rule batchAnalyze_map) simp
  show ?thesis
    unfolding m
    unfolding example_batch_def
    using entry_scam_job
    by (simp add: entry_empty_job entry_null_company_job batch_summary_def)
qed

section \<open>C6: a classifier that gives no signal\<close>

text \<open>
  C6, as amended. For every job posting whose text can be built: if there is no classifier
  object, or the classifier call throws, or it returns \<open>null\<close>, \<open>undefined\<close> or an empty
  list, the averaging step is skipped, the fusion proceeds with the rule-based signals
  only, and the analysis returns a result.
\<close>

theorem analyzeJobPosting_without_classifier_signal:
  assumes norm: "fullText job = Inr t"
    and out: "bayesClassifier svc = None
              \<or> (\<exists>c. bayesClassifier svc = Some c
                     \<and> ((\<exists>e. getClassifications rt c t = Inl e)
                          \<or> getClassifications rt c t = Inr NoList
                          \<or> getClassifications rt c t = Inr (Array [])))"
  shows "\<exists>a. fst (analyzeJobPosting rt svc job) = Inr a
           \<and> flaggedKeywords a = scanKeywords suspiciousKeywords t
           \<and> sentiment a = sentiment_analyze rt t
           \<and> confidence a = job_fusion (length (flaggedKeywords a))
                                        (true_red_flags (flaggedKeywords a))
                                        (comparative (sentiment a)) []
           \<and> isScam a = (confidence a > 0.5)"
proof -
  define r where "r = rule_riskScore (scanKeywords suspiciousKeywords t)
                        (redFlags (scanKeywords suspiciousKeywords t)) (sentiment_analyze rt t)"
  from out have "bayesResult rt svc t = NoList \<or> bayesResult rt svc t = Array []"
    by (auto simp: bayesResult_def)
  then have "adjust_by_bayes r (bayesResult rt svc t) = Inr r"
    by (auto simp: adjust_by_bayes_def)
  from analyzeJobPosting_result [OF norm this [unfolded r_def]]
  show ?thesis
    by (simp add: job_fusion_eq r_def)
qed

theorem analyzeJobPosting_without_classifier_signal_witness:
  "\<exists>a. fst (analyzeJobPosting throwing_runtime new_service scam_job) = Inr a
        \<and> confidence a = 1 \<and> isScam a"
proof -
  let ?t = "''urgent: data entry, work from home sign up fee required    ''"
  have out: "bayesClassifier new_service = None
              \<or> (\<exists>c. bayesClassifier new_service = Some c
                     \<and> ((\<exists>e. getClassifications throwing_runtime c ?t = Inl e)
                          \<or> getClassifications throwing_runtime c ?t = Inr NoList
                          \<or> getClassifications throwing_runtime c ?t = Inr (Array [])))"
    by (simp add: new_service_def throwing_runtime_def)
  from analyzeJobPosting_without_classifier_signal [OF fullText_scam_job out]
  obtain a where a: "fst (analyzeJobPosting throwing_runtime new_service scam_job) = Inr a"
    and fk: "flaggedKeywords a = scanKeywords suspiciousKeywords ?t"
    and se: "sentiment a = sentiment_analyze throwing_runtime ?t"
    and co: "confidence a = job_fusion (length (flaggedKeywords a))
               (true_red_flags (flaggedKeywords a)) (comparative (sentiment a)) []"
    and sc: "isScam a = (confidence a > 0.5)"
    by blast
  have "confidence a = 1"
    unfolding co fk se scan_scam_job flags_scam_job
    by (simp add: throwing_runtime_def example_runtime_def neutral_def job_fusion_def clamp01_def)
  with a sc show ?thesis by simp
qed

text \<open>
  A non-empty list is used as it is: a classifier that returns an array holding \<open>null\<close>
  makes the analysis throw.
\<close>

theorem malformed_classifier_output_throws:
  "fst (analyzeJobPosting malformed_runtime new_service empty_job)
     = Inl (TypeError ''Cannot read properties of null (reading label)'')"
proof -
  have "adjust_by_bayes
          (rule_riskScore (scanKeywords suspiciousKeywords ''     '')
             (redFlags (scanKeywords suspiciousKeywords ''     ''))
             (sentiment_analyze malformed_runtime ''     ''))
          (bayesResult malformed_runtime new_service ''     '')
        = Inl (TypeError ''Cannot read properties of null (reading label)'')"
    by (simp add: adjust_by_bayes_def bayesResult_def new_service_def malformed_runtime_def
          property_of_def)
  from analyzeJobPosting_error [OF fullText_empty_job this] show ?thesis by simp
qed

section \<open>C7: what an analysis writes\<close>

text \<open>
  C7, as amended. The analysis of a job posting leaves the classifier as it is and changes
  the state of the service in one place: it appends the normalized text, when it could be
  built, to the documents of the TF-IDF store. Its result does not depend on these
  documents, so analysing the same posting again against the same classifier gives the same
  result.
\<close>

theorem analyzeJobPosting_state:
  "snd (analyzeJobPosting rt svc job)
     = svc\<lparr>tfidf := tfidf svc @ (case fullText job of Inl e \<Rightarrow> [] | Inr t \<Rightarrow> [t])\<rparr>
   \<and> bayesClassifier (snd (analyzeJobPosting rt svc job)) = bayesClassifier svc
   \<and> fst (analyzeJobPosting rt (svc\<lparr>tfidf := d\<rparr>) job) = fst (analyzeJobPosting rt svc job)
   \<and> fst (analyzeJobPosting rt (snd (analyzeJobPosting rt svc job)) job)
       = fst (analyzeJobPosting rt svc job)"
  by (simp add: analyzeJobPosting_snd analyzeJobPosting_fst_tfidf)

text \<open>The first analysis on a new service leaves a document behind.\<close>

theorem analysis_writes_tfidf:
  "tfidf new_service = []
   \<and> tfidf (snd (analyzeJobPosting example_runtime new_service empty_job)) = [''     '']
   \<and> snd (analyzeJobPosting example_runtime new_service empty_job) \<noteq> new_service"
proof -
  have 1: "tfidf new_service = []" by (simp add: new_service_def)
  have 2: "tfidf (snd (analyzeJobPosting example_runtime new_service empty_job)) = [''     '']"
    by (simp add: analyzeJobPosting_snd fullText_empty_job 1)
  from 1 2 have "snd (analyzeJobPosting example_runtime new_service empty_job) \<noteq> new_service"
    by auto
  with 1 2 show ?thesis by blast
qed

section \<open>C8: the normalized text of a job posting\<close>

text \<open>
  C8. A posting whose \<open>company\<close> is \<open>null\<close> makes the construction of the text throw,
  where a \<open>null\<close> list of requirements is read as the empty list.
\<close>

theorem fullText_null_company:
  "fullText null_company_job
     = Inl (TypeError ''Cannot read properties of null (reading name)'')
   \<and> company null_company_job = Null
   \<and> fullText (null_company_job\<lparr>requirements := Null\<rparr>) = fullText null_company_job
   \<and> fullText (empty_job\<lparr>requirements := Null\<rparr>) = Inr ''     ''"
  by code_simp

section \<open>C9: the lexicon matcher\<close>

text \<open>
  C9. For every text, the keyword scan returns the vocabulary entries whose lower-case form
  occurs in the text as a contiguous substring, each once, in the order of their first
  occurrence in the vocabulary (the vocabulary without repetitions, filtered), whatever
  their position in the text. Scanning is a function of the vocabulary and the text alone,
  and removing duplicates from its output again changes nothing. On the raw text of a post,
  which the services lower-case first, the match ignores the case of the text.
\<close>

theorem scanKeywords_lexicon:
  "distinct (scanKeywords vocabulary t)
   \<and> set (scanKeywords vocabulary t)
       = {k. k \<in> set vocabulary \<and> (\<exists>before after. t = before @ toLowerCase k @ after)}
   \<and> scanKeywords vocabulary t
       = filter (\<lambda>k. js_includes t (toLowerCase k)) (uniq vocabulary)
   \<and> subseq (scanKeywords vocabulary t) vocabulary
   \<and> uniq (scanKeywords vocabulary t) = scanKeywords vocabulary t
   \<and> scanKeywords [''fee'', ''urgent'', ''fee''] (toLowerCase ''URGENT: pay the Fee'')
       = [''fee'', ''urgent'']"
proof -
  let ?P = "\<lambda>k. js_includes t (toLowerCase k)"
  have d: "distinct (scanKeywords vocabulary t)"
    by (simp add: scanKeywords_def distinct_uniq)
  have s: "set (scanKeywords vocabulary t)
       = {k. k \<in> set vocabulary \<and> (\<exists>before after. t = before @ toLowerCase k @ after)}"
    by (auto simp: scanKeywords_def set_uniq js_includes_sublist sublist_def)
  have f: "scanKeywords vocabulary t = filter ?P (uniq vocabulary)"
    by (simp add: scanKeywords_def uniq_filter)
  have "subseq (filter ?P vocabulary) vocabulary" by simp
  with subseq_uniq [of "filter ?P vocabulary"]
  have q: "subseq (scanKeywords vocabulary t) vocabulary"
    unfolding scanKeywords_def by (rule subseq_order.trans)
  have i: "uniq (scanKeywords vocabulary t) = scanKeywords vocabulary t"
    using d by (rule uniq_distinct)
  have e: "scanKeywords [''fee'', ''urgent'', ''fee''] (toLowerCase ''URGENT: pay the Fee'')
       = [''fee'', ''urgent'']"
    by (simp add: scanKeywords_def toLowerCase_def lower_char_def)
  from d s f q i e show ?thesis by blast
qed

section \<open>C10: the engagement branch\<close>

text \<open>
  C10. For every social post whose engagement is \<open>null\<close> or absent, or whose followers or
  likes are 0, \<open>null\<close> or absent, the engagement branch is not entered: the ratio is not
  computed, the analysis is the one of the same post without engagement data, and the
  confidence of a result is the fusion of the other signals with no bonus. Whenever the
  ratio is computed, it is a finite number.
\<close>

theorem engagement_branch_skipped:
  assumes "engagement c = Null \<or> engagement c = Undefined
           \<or> (\<exists>e. engagement c = Val e
                  \<and> (absent_or_zero (followers e) \<or> absent_or_zero (likes e)))"
  shows "engagementRatio (default_to \<lparr>followers = Undefined, likes = Undefined\<rparr> (engagement c))
           = None
       \<and> analyzeSocialMediaContent rt c = analyzeSocialMediaContent rt (c\<lparr>engagement := Undefined\<rparr>)
       \<and> (\<forall>a. analyzeSocialMediaContent rt c = Inr a \<longrightarrow>
              confidence a = social_fusion (length (flaggedKeywords a)) (length (flaggedPatterns a))
                               False (comparative (sentiment a)))
       \<and> (\<forall>eng r. engagementRatio eng = Some r \<longrightarrow> (\<exists>x. r = Finite x))"
proof -
  have nb: "bonus_when_both_nonzero (engagement c) = False"
    using not_bonus [OF assms] by simp
  have nu: "bonus_when_both_nonzero Undefined = False"
    by (simp add: bonus_when_both_nonzero_def)
  have same: "analyzeSocialMediaContent rt c
                = analyzeSocialMediaContent rt (c\<lparr>engagement := Undefined\<rparr>)"
  proof (cases "post_text c = Null")
    case True
    then show ?thesis by (simp add: analyzeSocialMediaContent_null_text)
  next
    case False
    then have "post_text (c\<lparr>engagement := Undefined\<rparr>) \<noteq> Null" by simp
    from analyzeSocialMediaContent_result [OF False, of rt]
         analyzeSocialMediaContent_result [OF this, of rt]
    show ?thesis by (simp add: nb nu)
  qed
  have conf: "confidence a = social_fusion (length (flaggedKeywords a)) (length (flaggedPatterns a))
                               False (comparative (sentiment a))"
    if "analyzeSocialMediaContent rt c = Inr a" for a
  proof -
    from that have "post_text c \<noteq> Null"
      by (auto simp: analyzeSocialMediaContent_null_text)
    from analyzeSocialMediaContent_result [OF this, of rt] that show ?thesis
      by (auto simp: nb)
  qed
  from engagementRatio_skipped [OF assms] same conf engagementRatio_finite show ?thesis
    by blast
qed

theorem engagement_branch_skipped_witness:
  "engagementRatio (default_to \<lparr>followers = Undefined, likes = Undefined\<rparr>
                      (engagement zero_followers_post)) = None
   \<and> analyzeSocialMediaContent example_runtime zero_followers_post
       = analyzeSocialMediaContent example_runtime (zero_followers_post\<lparr>engagement := Undefined\<rparr>)
   \<and> analyzeSocialMediaContent example_runtime zero_followers_post = Inr zero_followers_analysis"
proof -
  have h: "engagement zero_followers_post = Null \<or> engagement zero_followers_post = Undefined
           \<or> (\<exists>e. engagement zero_followers_post = Val e
                  \<and> (absent_or_zero (followers e) \<or> absent_or_zero (likes e)))"
    by (simp add: zero_followers_post_def absent_or_zero_def)
  from engagement_branch_skipped [OF h, of example_runtime] analysis_zero_followers_post
  show ?thesis by blast
qed

end
